theory Spec2Isabelle
  imports Main "HOL-Library.Log_Nat" "HOL-Library.Sublist"
begin

section \<open>Reports and summaries\<close>

text \<open>
  The dictionaries that \<^verbatim>\<open>test_model\<close> and \<^verbatim>\<open>_run_tests_sync\<close> build have a fixed set of
  keys, so they are records. Python floats are the rationals they denote; a value that
  may be \<^verbatim>\<open>None\<close> is an option.
\<close>

record latency_stats =
  lat_mean :: "rat option"
  lat_median :: "rat option"
  lat_min :: "rat option"
  lat_max :: "rat option"

record score_details =
  sd_score :: "rat option"
  sd_points :: string
  sd_breakdown :: "(string \<times> rat) list"

record ui_pass =
  up_latency_s :: rat
  up_response :: string

record model_report =
  mr_model :: string
  mr_latency_stats :: latency_stats
  mr_smartness_score :: "rat option"
  mr_code_score :: "rat option"
  mr_smartness_details :: score_details
  mr_coding_details :: score_details
  mr_tests :: "(string \<times> ui_pass list) list"

record top_summary =
  ts_fastest :: "(string \<times> rat option) option"
  ts_best_code :: "(string \<times> rat option) option"
  ts_best_smart :: "(string \<times> rat option) option"

record summary =
  sm_host :: string
  sm_models_tested :: "model_report list"
  sm_available_models :: "string list"
  sm_timestamp :: rat
  sm_error :: "string option"
  sm_top_summary :: "top_summary option"
  sm_db_id :: "int option"

section \<open>Run registry (run\_manager.py)\<close>

text \<open>
  A run's \<^verbatim>\<open>status\<close> is one of the four strings \<^verbatim>\<open>"pending"\<close>, \<^verbatim>\<open>"running"\<close>,
  \<^verbatim>\<open>"done"\<close>, \<^verbatim>\<open>"error"\<close>; no other value is ever stored.
\<close>

datatype status = Pending | Running | Done | Error

record metadata =
  md_host :: string
  md_models :: "string list"
  md_repeat :: int

record run =
  run_id :: string
  status :: status
  messages :: "string list"
  progress :: int
  run_metadata :: metadata
  result :: "summary option"

type_synonym registry = "string \<rightharpoonup> run"

text \<open>
  \<^verbatim>\<open>RUNS\<close> is a module-level dictionary; every operation takes it and returns it updated.
  The identifier \<^verbatim>\<open>uuid.uuid4().hex\<close> comes from the environment and is an argument.
  The operations run under \<^verbatim>\<open>RUNS_LOCK\<close>, one at a time; each is one atomic step here.
\<close>

definition create_run :: "string \<Rightarrow> metadata \<Rightarrow> registry \<Rightarrow> string \<times> registry" where
  "create_run uuid md RUNS =
     (uuid, RUNS(uuid \<mapsto> \<lparr>run_id = uuid, status = Pending, messages = [], progress = 0,
                          run_metadata = md, result = None\<rparr>))"

definition set_running :: "string \<Rightarrow> registry \<Rightarrow> registry" where
  "set_running rid RUNS =
     (case RUNS rid of None \<Rightarrow> RUNS
      | Some r \<Rightarrow> RUNS(rid \<mapsto> r\<lparr>status := Running\<rparr>))"

definition append_message :: "string \<Rightarrow> string \<Rightarrow> registry \<Rightarrow> registry" where
  "append_message rid msg RUNS =
     (case RUNS rid of None \<Rightarrow> RUNS
      | Some r \<Rightarrow> RUNS(rid \<mapsto> r\<lparr>messages := messages r @ [msg]\<rparr>))"

definition set_progress :: "string \<Rightarrow> int \<Rightarrow> registry \<Rightarrow> registry" where
  "set_progress rid pct RUNS =
     (case RUNS rid of None \<Rightarrow> RUNS
      | Some r \<Rightarrow> RUNS(rid \<mapsto> r\<lparr>progress := pct\<rparr>))"

definition set_result :: "string \<Rightarrow> summary \<Rightarrow> registry \<Rightarrow> registry" where
  "set_result rid res RUNS =
     (case RUNS rid of None \<Rightarrow> RUNS
      | Some r \<Rightarrow> RUNS(rid \<mapsto> r\<lparr>status := Done, result := Some res, progress := 100\<rparr>))"

definition set_error :: "string \<Rightarrow> string \<Rightarrow> registry \<Rightarrow> registry" where
  "set_error rid err_msg RUNS =
     (case RUNS rid of None \<Rightarrow> RUNS
      | Some r \<Rightarrow> RUNS(rid \<mapsto> r\<lparr>status := Error, messages := messages r @ [err_msg]\<rparr>))"

definition get_run :: "string \<Rightarrow> registry \<Rightarrow> run option" where
  "get_run rid RUNS = RUNS rid"

section \<open>Floating-point arithmetic\<close>

text \<open>
  \<^verbatim>\<open>a / b\<close> on integers, \<^verbatim>\<open>x * y\<close> on floats and \<^verbatim>\<open>float(n)\<close> are correctly rounded: the
  result is the double nearest to the exact value, ties to the even mantissa. A finite
  double is the rational it denotes. \<open>fl\<close> rounds a rational to 53 significant bits: on
  the doubles of the normal range (magnitudes from \<open>2\<^sup>-\<^sup>1\<^sup>0\<^sup>2\<^sup>2\<close> up to, not including,
  \<open>2\<^sup>1\<^sup>0\<^sup>2\<^sup>4\<close>), which hold every value computed below, it is that rounding.
  \<^verbatim>\<open>int(x)\<close> truncates towards zero.
\<close>

definition pow2 :: "int \<Rightarrow> rat" where
  "pow2 k = (if 0 \<le> k then 2 ^ nat k else 1 / 2 ^ nat (- k))"

definition round_half_even :: "rat \<Rightarrow> int" where
  "round_half_even x =
     (let f = \<lfloor>x\<rfloor>; d = x - of_int f
      in if d < 1 / 2 then f else if 1 / 2 < d then f + 1 else if even f then f else f + 1)"

text \<open>\<open>ilog2 x\<close> is the integer \<open>e\<close> with \<open>2\<^sup>e \<le> x < 2\<^sup>e\<^sup>+\<^sup>1\<close>, for \<open>0 < x\<close>.\<close>

definition ilog2 :: "rat \<Rightarrow> int" where
  "ilog2 x =
     (case quotient_of x of
        (a, b) \<Rightarrow> (let k = bitlen a - bitlen b in if pow2 k \<le> x then k else k - 1))"

definition fl :: "rat \<Rightarrow> rat" where
  "fl x = (if x = 0 then 0
           else (let s = pow2 (ilog2 \<bar>x\<bar> - 52) in of_int (round_half_even (x / s)) * s))"

definition py_int :: "rat \<Rightarrow> int" where
  "py_int x = (if 0 \<le> x then \<lfloor>x\<rfloor> else \<lceil>x\<rceil>)"

definition truediv :: "int \<Rightarrow> int \<Rightarrow> rat" where
  "truediv a b = fl (of_int a / of_int b)"

definition float_mul :: "rat \<Rightarrow> rat \<Rightarrow> rat" where
  "float_mul x y = fl (x * y)"

definition float_of_int :: "int \<Rightarrow> rat" where
  "float_of_int n = fl (of_int n)"

section \<open>Python values and built-ins\<close>

text \<open>
  The values that cross the boundaries of the program (chat responses, test inputs and
  expected outputs, the JSON a sandboxed process prints) are Python objects. The model
  has \<^verbatim>\<open>None\<close>, booleans, integers, strings, lists, tuples and dictionaries with string
  keys (in insertion order); floats and instances of other classes are not values of it.
  Strings are byte strings: a character beyond ASCII is the bytes of its UTF-8 encoding.
\<close>

datatype pyval =
    PNone
  | PBool bool
  | PInt int
  | PStr string
  | PList "pyval list"
  | PTuple "pyval list"
  | PDict "(string \<times> pyval) list"

text \<open>Exceptions. \<open>Raised msg\<close> is an exception whose \<^verbatim>\<open>str()\<close> is \<open>msg\<close>.\<close>

datatype exn = TypeError | AttributeError | Raised string

text \<open>
  Library functions and built-ins whose behaviour is not part of this repository are
  fields of a record that every function below takes as its first argument:
  \<^verbatim>\<open>str()\<close>, \<^verbatim>\<open>repr()\<close>, \<^verbatim>\<open>==\<close>, \<^verbatim>\<open>json.loads\<close> (\<open>None\<close> is \<^verbatim>\<open>JSONDecodeError\<close>),
  \<^verbatim>\<open>str(e)\<close> of an exception, \<^verbatim>\<open>re.search\<close> (pattern, then text), \<^verbatim>\<open>round(x, n)\<close>,
  \<^verbatim>\<open>statistics.mean\<close>, \<^verbatim>\<open>statistics.median\<close> and \<^verbatim>\<open>str()\<close> of a float or \<^verbatim>\<open>None\<close>.
  \<^verbatim>\<open>_extract_code\<close> (regular expressions and \<^verbatim>\<open>unicode_escape\<close> decoding) is taken the
  same way: no property below depends on what it returns.
\<close>

record pylib =
  py_str :: "pyval \<Rightarrow> string"
  py_repr :: "pyval \<Rightarrow> string"
  py_eq :: "pyval \<Rightarrow> pyval \<Rightarrow> bool"
  json_loads :: "string \<Rightarrow> pyval option"
  str_exn :: "exn \<Rightarrow> string"
  re_search :: "string \<Rightarrow> string \<Rightarrow> bool"
  py_round :: "rat \<Rightarrow> nat \<Rightarrow> rat"
  stat_mean :: "rat list \<Rightarrow> rat"
  stat_median :: "rat list \<Rightarrow> rat"
  str_float :: "rat option \<Rightarrow> string"
  extract_code :: "string \<Rightarrow> string"

text \<open>Truth value of an object, as \<^verbatim>\<open>if x\<close>, \<^verbatim>\<open>x or y\<close> and \<^verbatim>\<open>not x\<close> test it.\<close>

fun truthy :: "pyval \<Rightarrow> bool" where
  "truthy PNone = False"
| "truthy (PBool b) = b"
| "truthy (PInt i) = (i \<noteq> 0)"
| "truthy (PStr s) = (s \<noteq> [])"
| "truthy (PList xs) = (xs \<noteq> [])"
| "truthy (PTuple xs) = (xs \<noteq> [])"
| "truthy (PDict kv) = (kv \<noteq> [])"

definition py_or :: "pyval \<Rightarrow> pyval \<Rightarrow> pyval" where
  "py_or a b = (if truthy a then a else b)"

text \<open>\<^verbatim>\<open>d.get(k, default)\<close> on a dictionary.\<close>

definition dict_get :: "(string \<times> pyval) list \<Rightarrow> string \<Rightarrow> pyval \<Rightarrow> pyval" where
  "dict_get d k dflt = (case map_of d k of None \<Rightarrow> dflt | Some v \<Rightarrow> v)"

text \<open>
  \<^verbatim>\<open>p in s\<close> on strings is \<^term>\<open>sublist p s\<close>. \<^verbatim>\<open>s.strip()\<close> removes leading and
  trailing whitespace; on bytes that is the ASCII whitespace \<^verbatim>\<open>str.isspace\<close> accepts
  (9 to 13, 28 to 32).
\<close>

definition is_space :: "char \<Rightarrow> bool" where
  "is_space c = (of_char c \<in> {9, 10, 11, 12, 13, 28, 29, 30, 31, 32 :: nat})"

definition strip :: "string \<Rightarrow> string" where
  "strip s = rev (dropWhile is_space (rev (dropWhile is_space s)))"

text \<open>Decimal rendering of an integer, as \<^verbatim>\<open>str(n)\<close> and an f-string give it.\<close>

fun str_nat_fuel :: "nat \<Rightarrow> nat \<Rightarrow> string" where
  "str_nat_fuel 0 n = []"
| "str_nat_fuel (Suc k) n =
     (if n < 10 then [''0123456789'' ! n]
      else str_nat_fuel k (n div 10) @ [''0123456789'' ! (n mod 10)])"

definition str_nat :: "nat \<Rightarrow> string" where
  "str_nat n = str_nat_fuel (Suc n) n"

definition str_int :: "int \<Rightarrow> string" where
  "str_int i = (if i < 0 then ''-'' @ str_nat (nat (- i)) else str_nat (nat i))"

section \<open>Response extractor (ollama\_etch\_tester.py)\<close>

text \<open>
  \<^verbatim>\<open>_get_response_text\<close>. In the dictionary branch \<^verbatim>\<open>resp.get('message', {})\<close> must itself
  have a \<^verbatim>\<open>get\<close>: a value that is not a dictionary raises \<^verbatim>\<open>AttributeError\<close>. In the last
  branch the values of the model (booleans, integers, lists, tuples) have none of the
  attributes \<^verbatim>\<open>text\<close>, \<^verbatim>\<open>response\<close>, \<^verbatim>\<open>content\<close>, \<^verbatim>\<open>message\<close>, so \<^verbatim>\<open>str(resp)\<close> is returned.
\<close>

definition get_response_text :: "pylib \<Rightarrow> pyval \<Rightarrow> exn + pyval" where
  "get_response_text L resp =
     (case resp of
        PNone \<Rightarrow> Inr PNone
      | PStr s \<Rightarrow> Inr (PStr s)
      | PDict d \<Rightarrow>
          (case dict_get d ''message'' (PDict []) of
             PDict m \<Rightarrow>
               Inr (py_or (py_or (py_or (dict_get m ''content'' PNone)
                                        (dict_get d ''response'' PNone))
                                 (dict_get d ''text'' PNone))
                          (PStr (py_str L resp)))
           | _ \<Rightarrow> Inl AttributeError)
      | _ \<Rightarrow> Inr (PStr (py_str L resp)))"

section \<open>Code sandbox runner (ollama\_etch\_tester.py)\<close>

text \<open>
  \<^verbatim>\<open>subprocess.run\<close> on the harness file either raises \<^verbatim>\<open>TimeoutExpired\<close> (the child is
  killed when the timeout expires) or returns the captured standard output and standard
  error. The harness file is the fixed template filled with \<^verbatim>\<open>code_src\<close> and
  \<^verbatim>\<open>repr(test_cases)\<close>, so the interpreter is a function of these two and the timeout.
\<close>

datatype proc_result = TimeoutExpired | Completed string string

type_synonym test_case = "pyval \<times> pyval"

type_synonym interpreter = "string \<Rightarrow> test_case list \<Rightarrow> int \<Rightarrow> proc_result"

definition dangerous :: "string list" where
  "dangerous = [''subprocess'', ''socket'', ''requests'', ''eval('', ''exec('',
                ''__import__'', ''open('', ''os.system'']"

text \<open>The one-element list \<^verbatim>\<open>[{'error': msg}]\<close>.\<close>

definition err_details :: "pyval \<Rightarrow> pyval" where
  "err_details e = PList [PDict [(''error'', e)]]"

text \<open>
  What the function does with the parsed output \<^verbatim>\<open>data\<close>: \<^verbatim>\<open>'error' in data\<close>, then
  \<^verbatim>\<open>data['error']\<close> or the three \<^verbatim>\<open>data.get\<close>. Only \<^verbatim>\<open>JSONDecodeError\<close> is caught around
  it, so on a value that is not a dictionary the \<^verbatim>\<open>TypeError\<close> of \<^verbatim>\<open>in\<close> or of the
  subscript, or the \<^verbatim>\<open>AttributeError\<close> of \<^verbatim>\<open>get\<close>, leaves the function.
\<close>

definition read_data :: "pyval \<Rightarrow> nat \<Rightarrow> exn + (pyval \<times> pyval \<times> pyval)" where
  "read_data data n =
     (case data of
        PDict kv \<Rightarrow>
          (case map_of kv ''error'' of
             Some e \<Rightarrow> Inr (PInt 0, PInt (int n), err_details e)
           | None \<Rightarrow> Inr (dict_get kv ''passed'' (PInt 0), dict_get kv ''total'' (PInt (int n)),
                          dict_get kv ''results'' (PList [])))
      | PList xs \<Rightarrow> Inl (if PStr ''error'' \<in> set xs then TypeError else AttributeError)
      | PTuple xs \<Rightarrow> Inl (if PStr ''error'' \<in> set xs then TypeError else AttributeError)
      | PStr s \<Rightarrow> Inl (if sublist ''error'' s then TypeError else AttributeError)
      | _ \<Rightarrow> Inl TypeError)"

text \<open>
  \<^verbatim>\<open>_run_code_safely\<close>. The second component of the result lists the sources that were
  handed to the interpreter, in order: it is empty when no process was started. Writing
  and unlinking the temporary file do not change the result and are not modelled.
\<close>

definition run_code_safely ::
  "pylib \<Rightarrow> interpreter \<Rightarrow> string \<Rightarrow> test_case list \<Rightarrow> int
     \<Rightarrow> (exn + (pyval \<times> pyval \<times> pyval)) \<times> string list" where
  "run_code_safely L python code_src test_cases timeout =
     (let n = length test_cases in
      if code_src = [] then
        (Inr (PInt 0, PInt (int n), err_details (PStr ''No code extracted from response'')), [])
      else
        (case find (\<lambda>pattern. sublist pattern code_src) dangerous of
           Some pattern \<Rightarrow>
             (Inr (PInt 0, PInt (int n), err_details (PStr (''Forbidden pattern: '' @ pattern))),
              [])
         | None \<Rightarrow>
             (case python code_src test_cases timeout of
                TimeoutExpired \<Rightarrow>
                  (Inr (PInt 0, PInt (int n),
                        err_details (PStr (''Execution timeout ('' @ str_int timeout @ ''s)''))),
                   [code_src])
              | Completed out err \<Rightarrow>
                  (let stdout = strip out; stderr = strip err in
                   if stdout = [] then
                     (Inr (PInt 0, PInt (int n),
                           err_details (PStr (''No output. Stderr: '' @ take 200 stderr))),
                      [code_src])
                   else
                     (case json_loads L stdout of
                        None \<Rightarrow>
                          (Inr (PInt 0, PInt (int n),
                                err_details (PStr (''Invalid JSON: '' @ take 100 stdout))),
                           [code_src])
                      | Some data \<Rightarrow> (read_data data n, [code_src]))))))"





definition str_of :: "pyval \<Rightarrow> string" where
  "str_of v = (case v of PStr s \<Rightarrow> s | _ \<Rightarrow> [])"






text \<open>Concrete inputs used to instantiate the theorems below.\<close>

definition example_summary :: summary where
  "example_summary = \<lparr>sm_host = ''http://localhost:11434'', sm_models_tested = [],
     sm_available_models = [], sm_timestamp = 0, sm_error = None, sm_top_summary = None,
     sm_db_id = None\<rparr>"

definition example_run :: run where
  "example_run = \<lparr>run_id = ''a'', status = Running, messages = [''Starting run...''],
     progress = 0,
     run_metadata = \<lparr>md_host = ''http://localhost:11434'', md_models = [], md_repeat = 1\<rparr>,
     result = None\<rparr>"

definition example_lib :: pylib where
  "example_lib = \<lparr>
     py_str = (\<lambda>v. ''<object>''),
     py_repr = (\<lambda>v. ''<object>''),
     py_eq = (\<lambda>a b. a = b),
     json_loads = (\<lambda>s. if s = ''{\"passed\": 1, \"total\": 2, \"results\": []}''
                          then Some (PDict [(''passed'', PInt 1), (''total'', PInt 2),
                                            (''results'', PList [])])
                          else if s = ''{\"passed\": 2, \"total\": 5, \"results\": []}''
                          then Some (PDict [(''passed'', PInt 2), (''total'', PInt 5),
                                            (''results'', PList [])])
                          else if s = ''{\"passed\": 29, \"total\": 25}''
                          then Some (PDict [(''passed'', PInt 29), (''total'', PInt 25)])
                          else None),
     str_exn = (\<lambda>e. case e of Raised m \<Rightarrow> m | TypeError \<Rightarrow> ''TypeError''
                       | AttributeError \<Rightarrow> ''AttributeError''),
     re_search = (\<lambda>p t. False),
     py_round = (\<lambda>x n. x),
     stat_mean = (\<lambda>xs. 0),
     stat_median = (\<lambda>xs. 0),
     str_float = (\<lambda>x. ''0.0''),
     extract_code = (\<lambda>t. t)\<rparr>"


definition example_tests :: "test_case list" where
  "example_tests = [(PList [PInt 1, PInt 2], PInt 3), (PList [], PInt 5)]"


text \<open>
  Five processes: one prints the harness's object for \<open>example_fn\<close> on \<open>example_tests\<close>, one
  prints a line of its own before it, one prints text that is not JSON and a traceback,
  one prints nothing, one is killed at the timeout.
\<close>

definition python_harness_output :: interpreter where
  "python_harness_output src tcs t =
     Completed (''{\"passed\": 1, \"total\": 2, \"results\": []}'' @ [CHR 0x0A]) []"




definition python_timeout :: interpreter where
  "python_timeout src tcs t = TimeoutExpired"

section \<open>Coding tests and partial credit (ollama\_etch\_tester.py)\<close>

record coding_test =
  ct_name :: string
  ct_difficulty :: string
  ct_prompt :: string
  ct_test_cases :: "test_case list"
  ct_points :: int

definition CODING_TESTS :: "coding_test list" where
  "CODING_TESTS =
    [\<lparr>ct_name = ''Sum of List'', ct_difficulty = ''easy'',
      ct_prompt = ''Write a Python function called `solve(nums)` that returns the sum of all numbers in the list.\<newline>Example: solve([1, 2, 3]) should return 6\<newline>Return ONLY the function definition, no explanations.'',
      ct_test_cases =
        [(PList [PInt 1, PInt 2, PInt 3], PInt 6), (PList [PInt 0, PInt 0, PInt 0], PInt 0),
         (PList [PInt (- 1), PInt 1, PInt 5], PInt 5), (PList [PInt 10], PInt 10),
         (PList [], PInt 0)],
      ct_points = 25\<rparr>,
     \<lparr>ct_name = ''Find Maximum'', ct_difficulty = ''easy'',
      ct_prompt = ''Write a Python function called `solve(nums)` that returns the maximum number in the list.\<newline>Example: solve([1, 5, 3]) should return 5\<newline>Return ONLY the function definition, no explanations.'',
      ct_test_cases =
        [(PList [PInt 1, PInt 5, PInt 3], PInt 5),
         (PList [PInt (- 1), PInt (- 5), PInt (- 3)], PInt (- 1)),
         (PList [PInt 7], PInt 7), (PList [PInt 0, PInt 0, PInt 1], PInt 1)],
      ct_points = 25\<rparr>,
     \<lparr>ct_name = ''Count Vowels'', ct_difficulty = ''medium'',
      ct_prompt = ''Write a Python function called `solve(text)` that returns the count of vowels (a, e, i, o, u) in the string.\<newline>Example: solve(\"hello\") should return 2\<newline>Return ONLY the function definition, no explanations.'',
      ct_test_cases =
        [(PStr ''hello'', PInt 2), (PStr ''AEIOU'', PInt 5), (PStr ''xyz'', PInt 0),
         (PStr ''Programming'', PInt 3), (PStr [], PInt 0)],
      ct_points = 30\<rparr>,
     \<lparr>ct_name = ''Reverse Words'', ct_difficulty = ''medium'',
      ct_prompt = ''Write a Python function called `solve(text)` that reverses the order of words in a string.\<newline>Example: solve(\"hello world\") should return \"world hello\"\<newline>Return ONLY the function definition, no explanations.'',
      ct_test_cases =
        [(PStr ''hello world'', PStr ''world hello''), (PStr ''a b c'', PStr ''c b a''),
         (PStr ''single'', PStr ''single''), (PStr ''  spaced  '', PStr ''spaced'')],
      ct_points = 30\<rparr>,
     \<lparr>ct_name = ''Fibonacci Sequence'', ct_difficulty = ''hard'',
      ct_prompt = ''Write a Python function called `solve(n)` that returns the nth Fibonacci number (0-indexed).\<newline>F(0)=0, F(1)=1, F(n)=F(n-1)+F(n-2)\<newline>Example: solve(6) should return 8 (sequence: 0,1,1,2,3,5,8)\<newline>Return ONLY the function definition, no explanations.'',
      ct_test_cases =
        [(PInt 0, PInt 0), (PInt 1, PInt 1), (PInt 6, PInt 8), (PInt 10, PInt 55),
         (PInt 15, PInt 610)],
      ct_points = 40\<rparr>]"

text \<open>
  The points of one coding test, from the counts the sandbox returned:
  \<^verbatim>\<open>int((passed / total) * test["points"])\<close> if \<^verbatim>\<open>total > 0\<close>, else \<^verbatim>\<open>0\<close>.
\<close>

definition points_earned :: "int \<Rightarrow> int \<Rightarrow> int \<Rightarrow> int" where
  "points_earned passed tot pts =
     (if 0 < tot then py_int (float_mul (truediv passed tot) (float_of_int pts)) else 0)"

section \<open>Test battery evaluator (ollama\_etch\_tester.py)\<close>

text \<open>
  \<^verbatim>\<open>str(v)\<close> as the f-strings and the checkers use it: a string is itself, an integer is
  its decimal rendering, any other object is rendered by the library.
\<close>

definition to_str :: "pylib \<Rightarrow> pyval \<Rightarrow> string" where
  "to_str L v = (case v of PStr s \<Rightarrow> s | PInt i \<Rightarrow> str_int i | _ \<Rightarrow> py_str L v)"

text \<open>\<^verbatim>\<open>s.lower()\<close> and \<^verbatim>\<open>s.upper()\<close> on the ASCII letters; other bytes are kept.\<close>

definition lower :: "string \<Rightarrow> string" where
  "lower s = map (\<lambda>c. if 65 \<le> (of_char c :: nat) \<and> (of_char c :: nat) \<le> 90
                        then char_of ((of_char c :: nat) + 32) else c) s"

definition upper :: "string \<Rightarrow> string" where
  "upper s = map (\<lambda>c. if 97 \<le> (of_char c :: nat) \<and> (of_char c :: nat) \<le> 122
                        then char_of ((of_char c :: nat) - 32) else c) s"

text \<open>
  \<^verbatim>\<open>v[:n]\<close>: strings, lists and tuples are sliced; \<^verbatim>\<open>None\<close>, integers and booleans are not
  subscriptable; a dictionary rejects the slice as a key (\<^verbatim>\<open>TypeError\<close>, \<^verbatim>\<open>KeyError\<close> from
  Python 3.12 on; either way an exception of the caller).
\<close>

definition py_slice :: "nat \<Rightarrow> pyval \<Rightarrow> exn + pyval" where
  "py_slice n v =
     (case v of
        PStr s \<Rightarrow> Inr (PStr (take n s))
      | PList xs \<Rightarrow> Inr (PList (take n xs))
      | PTuple xs \<Rightarrow> Inr (PTuple (take n xs))
      | _ \<Rightarrow> Inl TypeError)"

text \<open>
  The value of a number in arithmetic and comparisons (a boolean is \<open>0\<close> or \<open>1\<close>); \<open>None\<close>
  for the objects on which \<^verbatim>\<open>> 0\<close> and \<^verbatim>\<open>/\<close> raise \<^verbatim>\<open>TypeError\<close>.
\<close>

definition as_num :: "pyval \<Rightarrow> int option" where
  "as_num v = (case v of PInt i \<Rightarrow> Some i | PBool b \<Rightarrow> Some (if b then 1 else 0) | _ \<Rightarrow> None)"

definition py_gt0 :: "pyval \<Rightarrow> exn + bool" where
  "py_gt0 v = (case as_num v of None \<Rightarrow> Inl TypeError | Some i \<Rightarrow> Inr (0 < i))"

text \<open>A loop whose body may raise: the first exception ends it.\<close>

fun for_each :: "('t \<Rightarrow> 's \<Rightarrow> exn + 's) \<Rightarrow> 't list \<Rightarrow> 's \<Rightarrow> exn + 's" where
  "for_each body [] s = Inr s"
| "for_each body (t # ts) s =
     (case body t s of Inl e \<Rightarrow> Inl e | Inr s' \<Rightarrow> for_each body ts s')"

text \<open>
  The chat client. A call may depend on every call made before it, so the client is a
  function of the calls so far (model and prompt of each), the model and the prompt; it
  returns a response or raises, and the second component is the wall time the call
  took, which \<^verbatim>\<open>_chat_with_model\<close> measures with \<^verbatim>\<open>time.time()\<close>.
\<close>

datatype chat_reply = ChatRaises string | ChatReturns pyval

type_synonym call_log = "(string \<times> string) list"

type_synonym client = "call_log \<Rightarrow> string \<Rightarrow> string \<Rightarrow> chat_reply \<times> rat"

text \<open>
  \<^verbatim>\<open>_chat_with_model\<close> returns \<^verbatim>\<open>(latency, text, None)\<close> or, when the call or
  \<^verbatim>\<open>_get_response_text\<close> raises, \<^verbatim>\<open>(latency, None, str(e))\<close>.
\<close>

definition chat_with_model ::
  "pylib \<Rightarrow> client \<Rightarrow> call_log \<Rightarrow> string \<Rightarrow> string
     \<Rightarrow> (rat \<times> pyval \<times> string option) \<times> call_log" where
  "chat_with_model L client hist model prompt =
     (case client hist model prompt of
        (reply, latency) \<Rightarrow>
          ((case reply of
              ChatRaises e \<Rightarrow> (latency, PNone, Some e)
            | ChatReturns resp \<Rightarrow>
                (case get_response_text L resp of
                   Inl ex \<Rightarrow> (latency, PNone, Some (str_exn L ex))
                 | Inr text \<Rightarrow> (latency, text, None))),
           hist @ [(model, prompt)]))"

text \<open>An error string is truthy when it is present and not empty.\<close>

definition truthy_err :: "string option \<Rightarrow> bool" where
  "truthy_err e = (case e of None \<Rightarrow> False | Some s \<Rightarrow> s \<noteq> [])"

definition err_val :: "string option \<Rightarrow> pyval" where
  "err_val e = (case e of None \<Rightarrow> PNone | Some s \<Rightarrow> PStr s)"

subsection \<open>Smartness tests\<close>

text \<open>The regular expression \<^verbatim>\<open>\b\<close>\<open>w\<close>\<^verbatim>\<open>\b\<close>: the word \<open>w\<close> between two word boundaries.\<close>

definition word_pattern :: "string \<Rightarrow> string" where
  "word_pattern w = [CHR 0x5C, CHR ''b''] @ w @ [CHR 0x5C, CHR ''b'']"

record smart_test =
  st_name :: string
  st_prompt :: string
  st_check :: "pylib \<Rightarrow> pyval \<Rightarrow> bool"
  st_points :: int
  st_category :: string

definition SMARTNESS_TESTS :: "smart_test list" where
  "SMARTNESS_TESTS =
    [\<lparr>st_name = ''Basic Arithmetic'',
      st_prompt = ''What is 17 + 28? Reply with just the number.'',
      st_check = (\<lambda>L r. re_search L (word_pattern ''45'') (to_str L r)),
      st_points = 10, st_category = ''math''\<rparr>,
     \<lparr>st_name = ''Multiplication'',
      st_prompt = ''What is 12 '' @ [CHR 0xC3, CHR 0x97] @ '' 15? Reply with just the number.'',
      st_check = (\<lambda>L r. re_search L (word_pattern ''180'') (to_str L r)),
      st_points = 10, st_category = ''math''\<rparr>,
     \<lparr>st_name = ''Word Problem'',
      st_prompt = ''A store sells apples for $2 each. If you buy 7 apples and pay with a $20 bill, how much change do you get? Just the number.'',
      st_check = (\<lambda>L r. re_search L (word_pattern ''6'') (to_str L r)),
      st_points = 10, st_category = ''math''\<rparr>,
     \<lparr>st_name = ''Sequence Pattern'',
      st_prompt = ''What comes next in this sequence: 2, 6, 12, 20, 30, ? Reply with just the number.'',
      st_check = (\<lambda>L r. re_search L (word_pattern ''42'') (to_str L r)),
      st_points = 15, st_category = ''logic''\<rparr>,
     \<lparr>st_name = ''Logical Deduction'',
      st_prompt = ''All roses are flowers. Some flowers fade quickly. Can we conclude that some roses fade quickly? Answer yes or no only.'',
      st_check = (\<lambda>L r. sublist ''no'' (lower (to_str L r))),
      st_points = 15, st_category = ''logic''\<rparr>,
     \<lparr>st_name = ''Comparison Logic'',
      st_prompt = ''If A > B, B > C, and C > D, is A > D? Answer yes or no only.'',
      st_check = (\<lambda>L r. sublist ''yes'' (lower (to_str L r)) \<and>
                          \<not> sublist ''no'' (lower (to_str L r))),
      st_points = 15, st_category = ''logic''\<rparr>,
     \<lparr>st_name = ''Factual Knowledge'',
      st_prompt = ''What is the capital of France? Reply with just the city name.'',
      st_check = (\<lambda>L r. sublist ''paris'' (lower (to_str L r))),
      st_points = 10, st_category = ''knowledge''\<rparr>,
     \<lparr>st_name = ''Reading Comprehension'',
      st_prompt = ''Read this: 'The blue car is faster than the red car. The green car is slower than the red car.' Which car is the slowest? Reply with just the color.'',
      st_check = (\<lambda>L r. sublist ''green'' (lower (to_str L r))),
      st_points = 15, st_category = ''knowledge''\<rparr>]"

record smart_result =
  sr_name :: string
  sr_category :: string
  sr_points :: int
  sr_passed :: bool
  sr_latency_s :: rat
  sr_response :: pyval
  sr_error :: "string option"

text \<open>
  The percentage \<^verbatim>\<open>round((earned / total) * 100, 1) if total > 0 else 0\<close> and the
  per-bucket dictionaries \<^verbatim>\<open>{bucket: {"earned": e, "total": t}}\<close>, as association lists in
  the order of the literal. Every category and difficulty of the two tables is a key of
  its dictionary, so the \<^verbatim>\<open>KeyError\<close> of an unknown bucket does not arise.
\<close>

definition percentage :: "pylib \<Rightarrow> int \<Rightarrow> int \<Rightarrow> rat" where
  "percentage L earned tot =
     (if 0 < tot then py_round L (float_mul (truediv earned tot) (float_of_int 100)) 1 else 0)"

type_synonym buckets = "(string \<times> int \<times> int) list"

definition add_total :: "string \<Rightarrow> int \<Rightarrow> buckets \<Rightarrow> buckets" where
  "add_total k pts bs = map (\<lambda>(c, e, t). if c = k then (c, e, t + pts) else (c, e, t)) bs"

definition add_earned :: "string \<Rightarrow> int \<Rightarrow> buckets \<Rightarrow> buckets" where
  "add_earned k pts bs = map (\<lambda>(c, e, t). if c = k then (c, e + pts, t) else (c, e, t)) bs"

definition percentages :: "pylib \<Rightarrow> buckets \<Rightarrow> (string \<times> rat) list" where
  "percentages L bs = map (\<lambda>(c, e, t). (c, percentage L e t)) bs"

record 'r battery_acc =
  acc_results :: "'r list"
  acc_total_points :: int
  acc_earned_points :: int
  acc_buckets :: buckets

record 'r battery_result =
  br_score :: rat
  br_earned_points :: int
  br_total_points :: int
  br_bucket_scores :: "(string \<times> rat) list"
  br_tests :: "'r list"

definition battery_result_of :: "pylib \<Rightarrow> 'r battery_acc \<Rightarrow> 'r battery_result" where
  "battery_result_of L a =
     \<lparr>br_score = percentage L (acc_earned_points a) (acc_total_points a),
      br_earned_points = acc_earned_points a,
      br_total_points = acc_total_points a,
      br_bucket_scores = percentages L (acc_buckets a),
      br_tests = acc_results a\<rparr>"

text \<open>One iteration of the loop of \<^verbatim>\<open>_run_smartness_tests\<close>.\<close>

definition smart_step ::
  "pylib \<Rightarrow> client \<Rightarrow> string \<Rightarrow> smart_test \<Rightarrow> smart_result battery_acc \<times> call_log
     \<Rightarrow> exn + (smart_result battery_acc \<times> call_log)" where
  "smart_step L client model t st =
     (case st of
        (a, hist) \<Rightarrow>
          (case chat_with_model L client hist model (st_prompt t) of
             ((latency, response, err), hist') \<Rightarrow>
               (let passed = (if truthy response \<and> \<not> truthy_err err
                              then st_check t L response else False)
                in case (if truthy response then py_slice 500 response else Inr (err_val err)) of
                     Inl e \<Rightarrow> Inl e
                   | Inr shown \<Rightarrow>
                       Inr (\<lparr>acc_results = acc_results a @
                               [\<lparr>sr_name = st_name t, sr_category = st_category t,
                                 sr_points = st_points t, sr_passed = passed,
                                 sr_latency_s = py_round L latency 3,
                                 sr_response = shown, sr_error = err\<rparr>],
                             acc_total_points = acc_total_points a + st_points t,
                             acc_earned_points =
                               (if passed then acc_earned_points a + st_points t
                                else acc_earned_points a),
                             acc_buckets =
                               (if passed
                                then add_earned (st_category t) (st_points t)
                                       (add_total (st_category t) (st_points t) (acc_buckets a))
                                else add_total (st_category t) (st_points t) (acc_buckets a))\<rparr>,
                            hist'))))"

definition run_smartness_tests ::
  "pylib \<Rightarrow> client \<Rightarrow> call_log \<Rightarrow> string
     \<Rightarrow> exn + (smart_result battery_result \<times> call_log)" where
  "run_smartness_tests L client hist model =
     (case for_each (smart_step L client model) SMARTNESS_TESTS
             (\<lparr>acc_results = [], acc_total_points = 0, acc_earned_points = 0,
               acc_buckets = [(''math'', 0, 0), (''logic'', 0, 0), (''knowledge'', 0, 0)]\<rparr>,
              hist) of
        Inl e \<Rightarrow> Inl e
      | Inr (a, hist') \<Rightarrow> Inr (battery_result_of L a, hist'))"

subsection \<open>Coding tests\<close>

text \<open>
  The points computation of \<^verbatim>\<open>_run_coding_tests\<close> on the objects the sandbox returned:
  \<^verbatim>\<open>total > 0\<close> is evaluated first, then \<^verbatim>\<open>passed / total\<close>.
\<close>

definition coding_points :: "pyval \<Rightarrow> pyval \<Rightarrow> int \<Rightarrow> exn + int" where
  "coding_points passed tot pts =
     (case as_num tot of
        None \<Rightarrow> Inl TypeError
      | Some n \<Rightarrow>
          if 0 < n then
            (case as_num passed of
               None \<Rightarrow> Inl TypeError
             | Some p \<Rightarrow> Inr (points_earned p n pts))
          else Inr 0)"

record coding_result =
  cr_name :: string
  cr_difficulty :: string
  cr_points :: int
  cr_earned :: int
  cr_passed_tests :: pyval
  cr_total_tests :: pyval
  cr_latency_s :: rat
  cr_error :: "string option"
  cr_code :: "string option"
  cr_raw_response :: pyval
  cr_test_results :: pyval

text \<open>
  \<^verbatim>\<open>_extract_code(response)\<close> on the object the chat returned: a falsy object gives the
  empty string, a string is searched, any other object makes \<^verbatim>\<open>re.search\<close> raise
  \<^verbatim>\<open>TypeError\<close>.
\<close>

definition extract_code_of :: "pylib \<Rightarrow> pyval \<Rightarrow> exn + string" where
  "extract_code_of L response =
     (if \<not> truthy response then Inr []
      else case response of PStr s \<Rightarrow> Inr (extract_code L s) | _ \<Rightarrow> Inl TypeError)"

text \<open>
  One iteration of the loop of \<^verbatim>\<open>_run_coding_tests\<close>. The sandbox is called with its default
  timeout of 5 seconds. The entry of a test whose chat failed has no \<^verbatim>\<open>raw_response\<close>
  key; \<open>PNone\<close> stands for the missing key as for \<^verbatim>\<open>None\<close>.
\<close>

definition coding_step ::
  "pylib \<Rightarrow> client \<Rightarrow> interpreter \<Rightarrow> string \<Rightarrow> coding_test
     \<Rightarrow> coding_result battery_acc \<times> call_log
     \<Rightarrow> exn + (coding_result battery_acc \<times> call_log)" where
  "coding_step L client python model t st =
     (case st of
        (a, hist) \<Rightarrow>
          (case chat_with_model L client hist model (ct_prompt t) of
             ((latency, response, err), hist') \<Rightarrow>
               if truthy_err err then
                 Inr (\<lparr>acc_results = acc_results a @
                         [\<lparr>cr_name = ct_name t, cr_difficulty = ct_difficulty t,
                           cr_points = ct_points t, cr_earned = 0,
                           cr_passed_tests = PInt 0,
                           cr_total_tests = PInt (int (length (ct_test_cases t))),
                           cr_latency_s = py_round L latency 3, cr_error = err,
                           cr_code = None, cr_raw_response = PNone,
                           cr_test_results = PList []\<rparr>],
                       acc_total_points = acc_total_points a + ct_points t,
                       acc_earned_points = acc_earned_points a,
                       acc_buckets = add_total (ct_difficulty t) (ct_points t) (acc_buckets a)\<rparr>,
                      hist')
               else
                 (case extract_code_of L response of
                    Inl e \<Rightarrow> Inl e
                  | Inr code \<Rightarrow>
                      (case fst (run_code_safely L python code (ct_test_cases t) 5) of
                         Inl e \<Rightarrow> Inl e
                       | Inr (passed, tot, test_details) \<Rightarrow>
                           (case coding_points passed tot (ct_points t) of
                              Inl e \<Rightarrow> Inl e
                            | Inr earned \<Rightarrow>
                                (case (if truthy response then py_slice 300 response
                                       else Inr PNone) of
                                   Inl e \<Rightarrow> Inl e
                                 | Inr raw \<Rightarrow>
                                     (case py_slice 5 test_details of
                                        Inl e \<Rightarrow> Inl e
                                      | Inr shown \<Rightarrow>
                                          Inr (\<lparr>acc_results = acc_results a @
                                                  [\<lparr>cr_name = ct_name t,
                                                    cr_difficulty = ct_difficulty t,
                                                    cr_points = ct_points t,
                                                    cr_earned = earned,
                                                    cr_passed_tests = passed,
                                                    cr_total_tests = tot,
                                                    cr_latency_s = py_round L latency 3,
                                                    cr_error = None,
                                                    cr_code = (if code = [] then None
                                                               else Some (take 500 code)),
                                                    cr_raw_response = raw,
                                                    cr_test_results = shown\<rparr>],
                                                acc_total_points =
                                                  acc_total_points a + ct_points t,
                                                acc_earned_points =
                                                  acc_earned_points a + earned,
                                                acc_buckets =
                                                  add_earned (ct_difficulty t) earned
                                                    (add_total (ct_difficulty t) (ct_points t)
                                                       (acc_buckets a))\<rparr>,
                                               hist'))))))))"

definition run_coding_tests ::
  "pylib \<Rightarrow> client \<Rightarrow> interpreter \<Rightarrow> call_log \<Rightarrow> string
     \<Rightarrow> exn + (coding_result battery_result \<times> call_log)" where
  "run_coding_tests L client python hist model =
     (case for_each (coding_step L client python model) CODING_TESTS
             (\<lparr>acc_results = [], acc_total_points = 0, acc_earned_points = 0,
               acc_buckets = [(''easy'', 0, 0), (''medium'', 0, 0), (''hard'', 0, 0)]\<rparr>,
              hist) of
        Inl e \<Rightarrow> Inl e
      | Inr (a, hist') \<Rightarrow> Inr (battery_result_of L a, hist'))"

subsection \<open>The main test function\<close>

text \<open>The marks \<^verbatim>\<open>U+2713\<close> and \<^verbatim>\<open>U+2717\<close> of the display lines, in UTF-8.\<close>

definition check_mark :: string where
  "check_mark = [CHR 0xE2, CHR 0x9C, CHR 0x93]"

definition cross_mark :: string where
  "cross_mark = [CHR 0xE2, CHR 0x9C, CHR 0x97]"

definition smartness_pass :: "pylib \<Rightarrow> smart_result \<Rightarrow> ui_pass" where
  "smartness_pass L t =
     \<lparr>up_latency_s = sr_latency_s t,
      up_response = ''['' @ upper (sr_category t) @ ''] '' @ sr_name t @ '': '' @
        (if sr_passed t then check_mark @ '' PASS'' else cross_mark @ '' FAIL'') @
        '' ('' @ str_int (sr_points t) @ ''pts) - '' @ take 100 (to_str L (sr_response t))\<rparr>"

definition coding_pass :: "pylib \<Rightarrow> coding_result \<Rightarrow> exn + ui_pass" where
  "coding_pass L t =
     (case py_gt0 (cr_passed_tests t) of
        Inl e \<Rightarrow> Inl e
      | Inr pos \<Rightarrow>
          Inr \<lparr>up_latency_s = cr_latency_s t,
               up_response = ''['' @ upper (cr_difficulty t) @ ''] '' @ cr_name t @ '': '' @
                 (if pos then check_mark else cross_mark) @ '' '' @
                 to_str L (cr_passed_tests t) @ ''/'' @ to_str L (cr_total_tests t) @
                 '' ('' @ str_int (cr_earned t) @ ''/'' @ str_int (cr_points t) @ ''pts)'' @
                 (if truthy_err (cr_error t) then '' - Error: '' @ str_of (err_val (cr_error t))
                  else case cr_code t of
                         None \<Rightarrow> []
                       | Some code \<Rightarrow>
                           if code = [] then []
                           else [CHR 0x0A] @ ''Code: '' @ take 200 code @ ''...'')\<rparr>)"

fun map_exn :: "('a \<Rightarrow> exn + 'b) \<Rightarrow> 'a list \<Rightarrow> exn + 'b list" where
  "map_exn f [] = Inr []"
| "map_exn f (x # xs) =
     (case f x of
        Inl e \<Rightarrow> Inl e
      | Inr y \<Rightarrow> (case map_exn f xs of Inl e \<Rightarrow> Inl e | Inr ys \<Rightarrow> Inr (y # ys)))"

definition latency_stats_of :: "pylib \<Rightarrow> rat list \<Rightarrow> latency_stats" where
  "latency_stats_of L all_latencies =
     (case all_latencies of
        [] \<Rightarrow> \<lparr>lat_mean = None, lat_median = None, lat_min = None, lat_max = None\<rparr>
      | x # xs \<Rightarrow>
          \<lparr>lat_mean = Some (py_round L (stat_mean L all_latencies) 4),
           lat_median = Some (py_round L (stat_median L all_latencies) 4),
           lat_min = Some (py_round L (fold min xs x) 4),
           lat_max = Some (py_round L (fold max xs x) 4)\<rparr>)"

text \<open>
  \<^verbatim>\<open>test_model(client, model, repeat)\<close>. The result is the report and the calls made to the
  client, or the exception that left the function.
\<close>

definition test_model ::
  "pylib \<Rightarrow> client \<Rightarrow> interpreter \<Rightarrow> call_log \<Rightarrow> string \<Rightarrow> int
     \<Rightarrow> exn + (model_report \<times> call_log)" where
  "test_model L client python hist model repeat =
     (case run_smartness_tests L client hist model of
        Inl e \<Rightarrow> Inl e
      | Inr (smartness_results, hist1) \<Rightarrow>
          (case run_coding_tests L client python hist1 model of
             Inl e \<Rightarrow> Inl e
           | Inr (coding_results, hist2) \<Rightarrow>
               (let all_latencies =
                      filter (\<lambda>x. x \<noteq> 0) (map sr_latency_s (br_tests smartness_results)) @
                      filter (\<lambda>x. x \<noteq> 0) (map cr_latency_s (br_tests coding_results));
                    smartness_passes = map (smartness_pass L) (br_tests smartness_results)
                in case map_exn (coding_pass L) (br_tests coding_results) of
                     Inl e \<Rightarrow> Inl e
                   | Inr coding_passes \<Rightarrow>
                       Inr (\<lparr>mr_model = model,
                             mr_latency_stats = latency_stats_of L all_latencies,
                             mr_smartness_score = Some (br_score smartness_results),
                             mr_code_score = Some (br_score coding_results),
                             mr_smartness_details =
                               \<lparr>sd_score = Some (br_score smartness_results),
                                sd_points = str_int (br_earned_points smartness_results) @ ''/''
                                  @ str_int (br_total_points smartness_results),
                                sd_breakdown = br_bucket_scores smartness_results\<rparr>,
                             mr_coding_details =
                               \<lparr>sd_score = Some (br_score coding_results),
                                sd_points = str_int (br_earned_points coding_results) @ ''/''
                                  @ str_int (br_total_points coding_results),
                                sd_breakdown = br_bucket_scores coding_results\<rparr>,
                             mr_tests = [(''smartness'', smartness_passes),
                                         (''coding'', coding_passes)]\<rparr>,
                            hist2))))"

section \<open>Run orchestrator (app.py)\<close>

text \<open>
  The orchestrator talks to the registry only through its five mutations, each applied
  to the run's identifier. A function of the orchestrator returns the mutations it
  issued, in order, beside its value; \<open>run_ops\<close> applies them to the registry and keeps
  every intermediate registry, which is what a poller of \<^verbatim>\<open>/run_status\<close> can observe.
\<close>

datatype reg_op =
    SetRunning
  | AppendMessage string
  | SetProgress int
  | SetResult summary
  | SetError string

definition apply_op :: "string \<Rightarrow> reg_op \<Rightarrow> registry \<Rightarrow> registry" where
  "apply_op rid op RUNS =
     (case op of
        SetRunning \<Rightarrow> set_running rid RUNS
      | AppendMessage msg \<Rightarrow> append_message rid msg RUNS
      | SetProgress pct \<Rightarrow> set_progress rid pct RUNS
      | SetResult res \<Rightarrow> set_result rid res RUNS
      | SetError msg \<Rightarrow> set_error rid msg RUNS)"

fun run_ops :: "string \<Rightarrow> reg_op list \<Rightarrow> registry \<Rightarrow> registry list" where
  "run_ops rid [] RUNS = [RUNS]"
| "run_ops rid (op # ops) RUNS = RUNS # run_ops rid ops (apply_op rid op RUNS)"

text \<open>
  What the orchestrator reads from outside: the library, \<^verbatim>\<open>client.list()\<close> (it raises, or
  \<^verbatim>\<open>_normalize_models\<close> of what it returns is the list of names), the chat client, the
  interpreter of the sandbox, \<^verbatim>\<open>time.time()\<close>, writing \<^verbatim>\<open>latest_results.json\<close> (\<open>None\<close>
  when it succeeds, the text of the exception otherwise) at its path, and \<^verbatim>\<open>db.save_run\<close>
  (the text of the exception, or the row identifier). \<^verbatim>\<open>db.add_host\<close> has no effect on what
  follows: its exceptions are discarded.
\<close>

record world =
  w_lib :: pylib
  w_list :: "exn + string list"
  w_client :: client
  w_python :: interpreter
  w_now :: rat
  w_save_file :: "string option"
  w_path :: string
  w_save_run :: "string + int"

text \<open>
  The two progress values of a model:
  \<^verbatim>\<open>int(((idx - 1) / total) * 100)\<close> before it is tested and
  \<^verbatim>\<open>int((idx / total) * 95)\<close> after.
\<close>

definition progress_before :: "int \<Rightarrow> int \<Rightarrow> int" where
  "progress_before idx tot = py_int (float_mul (truediv (idx - 1) tot) (float_of_int 100))"

definition progress_after :: "int \<Rightarrow> int \<Rightarrow> int" where
  "progress_after idx tot = py_int (float_mul (truediv idx tot) (float_of_int 95))"

definition testing_message :: "string \<Rightarrow> int \<Rightarrow> int \<Rightarrow> string" where
  "testing_message mn idx tot =
     ''Testing model: '' @ mn @ '' ('' @ str_int idx @ ''/'' @ str_int tot @ '')...''"

definition completed_message :: "pylib \<Rightarrow> string \<Rightarrow> model_report \<Rightarrow> string" where
  "completed_message L mn res =
     ''Completed '' @ mn @ '': smartness='' @ str_float L (mr_smartness_score res) @
     ''% mean='' @ str_float L (lat_mean (mr_latency_stats res)) @ ''s''"

text \<open>
  The loop of \<^verbatim>\<open>_run_tests_sync\<close> over \<^verbatim>\<open>enumerate(test_models, start=1)\<close>. \<open>emit\<close> is the
  truth value of \<^verbatim>\<open>run_id\<close>. An exception of \<^verbatim>\<open>test_model\<close> leaves the loop after the
  mutations issued so far.
\<close>

fun sync_loop ::
  "world \<Rightarrow> bool \<Rightarrow> int \<Rightarrow> int \<Rightarrow> (int \<times> string) list \<Rightarrow> reg_op list \<Rightarrow> model_report list
     \<Rightarrow> call_log \<Rightarrow> reg_op list \<times> (exn + model_report list)" where
  "sync_loop W emit repeat tot [] ops tested hist = (ops, Inr tested)"
| "sync_loop W emit repeat tot ((idx, mn) # rest) ops tested hist =
     (let ops1 = ops @ (if emit then [AppendMessage (testing_message mn idx tot),
                                       SetProgress (progress_before idx tot)] else [])
      in case test_model (w_lib W) (w_client W) (w_python W) hist mn repeat of
           Inl e \<Rightarrow> (ops1, Inl e)
         | Inr (res, hist') \<Rightarrow>
             sync_loop W emit repeat tot rest
               (ops1 @ (if emit then [AppendMessage (completed_message (w_lib W) mn res),
                                      SetProgress (progress_after idx tot)] else []))
               (tested @ [res]) hist')"

text \<open>
  \<^verbatim>\<open>_run_tests_sync\<close>. \<^verbatim>\<open>models\<close> is the list of the request, empty for \<^verbatim>\<open>None\<close> (both are
  falsy); \<^verbatim>\<open>run_id\<close> is optional, and falsy when absent or empty.
\<close>

definition run_tests_sync ::
  "world \<Rightarrow> string \<Rightarrow> int \<Rightarrow> string list \<Rightarrow> string option
     \<Rightarrow> reg_op list \<times> (exn + summary)" where
  "run_tests_sync W host repeat models rid =
     (let emit = (case rid of None \<Rightarrow> False | Some r \<Rightarrow> r \<noteq> []) in
      case w_list W of
        Inl e \<Rightarrow>
          ((if emit then [SetError (str_exn (w_lib W) e)] else []),
           Inr \<lparr>sm_host = host, sm_models_tested = [], sm_available_models = [],
                sm_timestamp = w_now W, sm_error = Some (str_exn (w_lib W) e),
                sm_top_summary = None, sm_db_id = None\<rparr>)
      | Inr names \<Rightarrow>
          (let test_models =
                 (if models \<noteq> [] then filter (\<lambda>mn. mn \<in> set names) models
                  else filter (\<lambda>mn. sublist ''etch'' (lower mn)) names);
               summary0 = \<lparr>sm_host = host, sm_models_tested = [], sm_available_models = names,
                            sm_timestamp = w_now W, sm_error = None,
                            sm_top_summary = None, sm_db_id = None\<rparr>
           in if test_models = [] then ([], Inr summary0)
              else
                (case sync_loop W emit repeat (int (length test_models))
                        (zip (map int [1 ..< Suc (length test_models)]) test_models) [] [] [] of
                   (ops, Inl e) \<Rightarrow> (ops, Inl e)
                 | (ops, Inr tested) \<Rightarrow>
                     (ops @ (if emit then [SetProgress 95] else []),
                      Inr (summary0\<lparr>sm_models_tested := tested\<rparr>)))))"

subsection \<open>Top-performer summary\<close>

text \<open>
  \<^verbatim>\<open>min(ms, key=k)\<close> and \<^verbatim>\<open>max(ms, key=k)\<close> keep the first item and replace it only by an
  item whose key is strictly smaller (greater): among equal keys the first wins.
\<close>

fun py_min_by :: "('a \<Rightarrow> 'k) \<Rightarrow> ('k \<Rightarrow> 'k \<Rightarrow> bool) \<Rightarrow> 'a \<Rightarrow> 'a list \<Rightarrow> 'a" where
  "py_min_by key lt best [] = best"
| "py_min_by key lt best (x # xs) =
     py_min_by key lt (if lt (key x) (key best) then x else best) xs"

fun py_max_by :: "('a \<Rightarrow> 'k) \<Rightarrow> ('k \<Rightarrow> 'k \<Rightarrow> bool) \<Rightarrow> 'a \<Rightarrow> 'a list \<Rightarrow> 'a" where
  "py_max_by key lt best [] = best"
| "py_max_by key lt best (x # xs) =
     py_max_by key lt (if lt (key best) (key x) then x else best) xs"

text \<open>
  The key of \<^verbatim>\<open>fastest\<close>, \<^verbatim>\<open>(m.get('latency_stats') or {}).get('mean') or float('inf')\<close>:
  \<open>None\<close> is infinity here. The key of the two scores,
  \<^verbatim>\<open>(score is not None) and float(score) or -1\<close>.
\<close>

definition mean_key :: "model_report \<Rightarrow> rat option" where
  "mean_key m =
     (case lat_mean (mr_latency_stats m) of
        None \<Rightarrow> None
      | Some x \<Rightarrow> if x \<noteq> 0 then Some x else None)"

definition lt_inf :: "rat option \<Rightarrow> rat option \<Rightarrow> bool" where
  "lt_inf a b =
     (case a of
        None \<Rightarrow> False
      | Some x \<Rightarrow> (case b of None \<Rightarrow> True | Some y \<Rightarrow> x < y))"

definition score_key :: "rat option \<Rightarrow> rat" where
  "score_key s = (case s of None \<Rightarrow> - 1 | Some c \<Rightarrow> if c \<noteq> 0 then c else - 1)"

definition top_summary_of :: "model_report list \<Rightarrow> top_summary" where
  "top_summary_of ms =
     (case ms of
        [] \<Rightarrow> \<lparr>ts_fastest = None, ts_best_code = None, ts_best_smart = None\<rparr>
      | m # rest \<Rightarrow>
          (let fastest = py_min_by mean_key lt_inf m rest;
               best_code = py_max_by (\<lambda>m. score_key (mr_code_score m)) (<) m rest;
               best_smart = py_max_by (\<lambda>m. score_key (mr_smartness_score m)) (<) m rest
           in \<lparr>ts_fastest = Some (mr_model fastest, lat_mean (mr_latency_stats fastest)),
               ts_best_code =
                 (if mr_code_score best_code \<noteq> None
                  then Some (mr_model best_code, mr_code_score best_code) else None),
               ts_best_smart =
                 (if mr_smartness_score best_smart \<noteq> None
                  then Some (mr_model best_smart, mr_smartness_score best_smart)
                  else None)\<rparr>))"

subsection \<open>The background body and start\_run\<close>

text \<open>
  \<^verbatim>\<open>bg\<close>, the body of the thread that \<^verbatim>\<open>start_run\<close> starts. The second \<^verbatim>\<open>set_result\<close> stores
  the summary with its \<^verbatim>\<open>_db_id\<close>.
\<close>

definition bg :: "world \<Rightarrow> string \<Rightarrow> int \<Rightarrow> string list \<Rightarrow> string \<Rightarrow> reg_op list" where
  "bg W host repeat models rid =
     [SetRunning, AppendMessage ''Starting run...''] @
     (case run_tests_sync W host repeat models (Some rid) of
        (ops, Inl e) \<Rightarrow> ops @ [SetError (str_exn (w_lib W) e)]
      | (ops, Inr summary0) \<Rightarrow>
          (let summary1 =
                 summary0\<lparr>sm_top_summary := Some (top_summary_of (sm_models_tested summary0))\<rparr>
           in ops @
              [AppendMessage ''Tests complete; saving result'', SetResult summary1] @
              [case w_save_file W of
                 None \<Rightarrow> AppendMessage (''Saved results to '' @ w_path W)
               | Some e2 \<Rightarrow> AppendMessage (''Failed to save results: '' @ e2)] @
              (case w_save_run W of
                 Inr run_db_id \<Rightarrow>
                   [AppendMessage (''Saved run into DB (id='' @ str_int run_db_id @ '')''),
                    SetResult (summary1\<lparr>sm_db_id := Some run_db_id\<rparr>)]
               | Inl e3 \<Rightarrow> [AppendMessage (''Failed to persist run to DB: '' @ e3)]) @
              [SetProgress 100]))"

text \<open>
  \<^verbatim>\<open>start_run\<close>: without a host nothing is created; otherwise the run is created and the
  thread runs \<^verbatim>\<open>bg\<close>. The result is the run's identifier and the registries a poller can
  see, the first right after \<^verbatim>\<open>create_run\<close>.
\<close>

definition start_run ::
  "world \<Rightarrow> string \<Rightarrow> string \<Rightarrow> int \<Rightarrow> string list \<Rightarrow> registry
     \<Rightarrow> (string \<times> registry list) option" where
  "start_run W uuid host repeat models RUNS =
     (if host = [] then None
      else (case create_run uuid \<lparr>md_host = host, md_models = models, md_repeat = repeat\<rparr> RUNS of
              (rid, RUNS1) \<Rightarrow> Some (rid, run_ops rid (bg W host repeat models rid) RUNS1)))"

text \<open>
  The statuses a poller sees for a run, one per registry, and the transitions among
  them: the same sequence without repetitions of a status next to itself.
\<close>

definition status_history :: "string \<Rightarrow> registry list \<Rightarrow> status list" where
  "status_history rid Rs = concat (map (\<lambda>R. case R rid of None \<Rightarrow> [] | Some r \<Rightarrow> [status r]) Rs)"

definition status_trace :: "string \<Rightarrow> registry list \<Rightarrow> status list" where
  "status_trace rid Rs = remdups_adj (status_history rid Rs)"

definition progress_history :: "string \<Rightarrow> registry list \<Rightarrow> int list" where
  "progress_history rid Rs =
     concat (map (\<lambda>R. case R rid of None \<Rightarrow> [] | Some r \<Rightarrow> [progress r]) Rs)"





definition example_client :: client where
  "example_client hist model prompt = (ChatReturns (PStr ''def solve(x): return 0''), 1 / 2)"

definition down_client :: client where
  "down_client hist model prompt = (ChatRaises ''connection refused'', 1 / 4)"

definition example_world :: world where
  "example_world =
     \<lparr>w_lib = example_lib, w_list = Inr [''etch-7b'', ''llama''], w_client = down_client,
      w_python = python_timeout, w_now = 1700000000, w_save_file = None,
      w_path = ''/srv/app/latest_results.json'', w_save_run = Inr 7\<rparr>"

definition unreachable_world :: world where
  "unreachable_world = example_world\<lparr>w_list := Inl (Raised ''connection refused'')\<rparr>"


text \<open>
  The status of a run after one mutation, and the statuses after each of a list of
  mutations, starting from a given status. A mutation is quiet when it leaves the
  status alone.
\<close>

fun op_status :: "reg_op \<Rightarrow> status \<Rightarrow> status" where
  "op_status SetRunning s = Running"
| "op_status (AppendMessage msg) s = s"
| "op_status (SetProgress pct) s = s"
| "op_status (SetResult res) s = Done"
| "op_status (SetError msg) s = Error"

fun statuses :: "status \<Rightarrow> reg_op list \<Rightarrow> status list" where
  "statuses s [] = [s]"
| "statuses s (op # ops) = s # statuses (op_status op s) ops"

fun quiet :: "reg_op \<Rightarrow> bool" where
  "quiet (AppendMessage msg) = True"
| "quiet (SetProgress pct) = True"
| "quiet op = False"

section \<open>Properties of the registry\<close>

text \<open>
  C8. For a \<^verbatim>\<open>run_id\<close> that is not in the registry, each of \<^verbatim>\<open>set_running\<close>,
  \<^verbatim>\<open>append_message\<close>, \<^verbatim>\<open>set_progress\<close>, \<^verbatim>\<open>set_result\<close> and \<^verbatim>\<open>set_error\<close> returns the
  registry map unchanged (the operations are total: no branch raises). For a \<^verbatim>\<open>run_id\<close>
  that is present, \<^verbatim>\<open>set_result\<close> sets that run's status to done, stores the result and
  sets progress to 100, and leaves every other field and every other run as they were.
\<close>

theorem registry_unknown_noop_set_result_done:
  "(rid \<notin> dom RUNS \<longrightarrow>
      set_running rid RUNS = RUNS \<and> append_message rid msg RUNS = RUNS \<and>
      set_progress rid pct RUNS = RUNS \<and> set_result rid res RUNS = RUNS \<and>
      set_error rid msg RUNS = RUNS) \<and>
   (\<forall>r. RUNS rid = Some r \<longrightarrow>
      set_result rid res RUNS =
        RUNS(rid \<mapsto> r\<lparr>status := Done, result := Some res, progress := 100\<rparr>))"
  by (auto simp: set_running_def append_message_def set_progress_def set_result_def
      set_error_def)

theorem registry_unknown_noop_set_result_done_witness:
  "''b'' \<notin> dom [''a'' \<mapsto> example_run] \<and>
   set_running ''b'' [''a'' \<mapsto> example_run] = [''a'' \<mapsto> example_run] \<and>
   append_message ''b'' ''hello'' [''a'' \<mapsto> example_run] = [''a'' \<mapsto> example_run] \<and>
   set_progress ''b'' 50 [''a'' \<mapsto> example_run] = [''a'' \<mapsto> example_run] \<and>
   set_result ''b'' example_summary [''a'' \<mapsto> example_run] = [''a'' \<mapsto> example_run] \<and>
   set_error ''b'' ''hello'' [''a'' \<mapsto> example_run] = [''a'' \<mapsto> example_run] \<and>
   [''a'' \<mapsto> example_run] ''a'' = Some example_run \<and>
   set_result ''a'' example_summary [''a'' \<mapsto> example_run] =
     [''a'' \<mapsto> example_run\<lparr>status := Done, result := Some example_summary, progress := 100\<rparr>]"
  using registry_unknown_noop_set_result_done
    [of "''b''" "[''a'' \<mapsto> example_run]" "''hello''" 50 example_summary]
    registry_unknown_noop_set_result_done
    [of "''a''" "[''a'' \<mapsto> example_run]" "''hello''" 50 example_summary]
  by simp

section \<open>Properties of the response extractor\<close>

text \<open>
  C10. For a dictionary response whose \<^verbatim>\<open>message\<close> entry is a dictionary that maps
  \<^verbatim>\<open>content\<close> to the empty string, and which has no \<^verbatim>\<open>response\<close> and no \<^verbatim>\<open>text\<close> key,
  \<^verbatim>\<open>_get_response_text\<close> returns \<^verbatim>\<open>str(resp)\<close>, the rendering of the whole dictionary, and
  not the empty content: a falsy value of a matched field falls through to the next
  alternative of the \<^verbatim>\<open>or\<close> chain.
\<close>

theorem get_response_text_empty_content:
  assumes "map_of d ''message'' = Some (PDict m)"
    and "map_of m ''content'' = Some (PStr [])"
    and "map_of d ''response'' = None"
    and "map_of d ''text'' = None"
  shows "get_response_text L (PDict d) = Inr (PStr (py_str L (PDict d)))"
  using assms by (simp add: get_response_text_def dict_get_def py_or_def)

theorem get_response_text_empty_content_witness:
  "get_response_text example_lib (PDict [(''message'', PDict [(''content'', PStr [])])]) =
     Inr (PStr (py_str example_lib (PDict [(''message'', PDict [(''content'', PStr [])])])))"
  using get_response_text_empty_content
    [of "[(''message'', PDict [(''content'', PStr [])])]" "[(''content'', PStr [])]" example_lib]
  by simp

section \<open>Properties of the sandbox runner\<close>

lemma dangerous_nonempty: "p \<in> set dangerous \<Longrightarrow> p \<noteq> []"
  by (auto simp: dangerous_def)

text \<open>
  C4. For every source that contains a substring of the deny-list, and every list of test
  cases (empty or not), \<^verbatim>\<open>_run_code_safely\<close> returns \<^verbatim>\<open>(0, len(test_cases), details)\<close> where
  \<^verbatim>\<open>details\<close> is \<^verbatim>\<open>[{'error': 'Forbidden pattern: p'}]\<close> and \<open>p\<close> is the first pattern of the
  list, in its order, that occurs in the source. No process is started: the list of
  executed sources is empty, and the result is the same for every interpreter, so it
  does not depend on what the source would do.
\<close>

theorem run_code_safely_forbidden:
  assumes "\<exists>p \<in> set dangerous. sublist p code_src"
  shows "\<exists>p \<in> set dangerous. sublist p code_src \<and>
           find (\<lambda>q. sublist q code_src) dangerous = Some p \<and>
           run_code_safely L python code_src test_cases timeout =
             (Inr (PInt 0, PInt (int (length test_cases)),
                   err_details (PStr (''Forbidden pattern: '' @ p))), [])"
proof -
  from assms obtain q where q: "q \<in> set dangerous" "sublist q code_src" by blast
  then have ne: "code_src \<noteq> []" using dangerous_nonempty[of q] by auto
  from q have "find (\<lambda>q. sublist q code_src) dangerous \<noteq> None"
    by (auto simp: find_None_iff)
  then obtain p where p: "find (\<lambda>q. sublist q code_src) dangerous = Some p" by auto
  then have "p \<in> set dangerous" "sublist p code_src"
    by (auto simp: find_Some_iff)
  with p ne show ?thesis
    by (auto simp: run_code_safely_def Let_def)
qed

theorem run_code_safely_forbidden_witness:
  "(\<exists>p \<in> set dangerous. sublist p ''import socket'') \<and>
   run_code_safely example_lib python_harness_output ''import socket'' example_tests 5 =
     (Inr (PInt 0, PInt 2, err_details (PStr ''Forbidden pattern: socket'')), [])"
proof -
  have h: "\<exists>p \<in> set dangerous. sublist p ''import socket''"
    by code_simp
  have f: "find (\<lambda>q. sublist q ''import socket'') dangerous = Some ''socket''"
    by code_simp
  from run_code_safely_forbidden[OF h, of example_lib python_harness_output example_tests 5] f h
  show ?thesis by (auto simp: example_tests_def)
qed











section \<open>Properties of partial credit\<close>











section \<open>Properties of the test battery evaluator\<close>

text \<open>
  Every call of \<^verbatim>\<open>_chat_with_model\<close> adds one entry to the calls made, so a battery that
  returns has sent each prompt of its table once, in the order of the table.
\<close>

lemma chat_with_model_hist:
  "snd (chat_with_model L client hist model prompt) = hist @ [(model, prompt)]"
  by (simp add: chat_with_model_def split: prod.splits)

lemma smart_step_hist:
  "smart_step L client model t (a, hist) = Inr (a', hist') \<Longrightarrow>
     hist' = hist @ [(model, st_prompt t)]"
  using chat_with_model_hist[of L client hist model "st_prompt t"]
  by (auto simp: smart_step_def Let_def split: prod.splits sum.splits if_splits)

lemma coding_step_hist:
  "coding_step L client python model t (a, hist) = Inr (a', hist') \<Longrightarrow>
     hist' = hist @ [(model, ct_prompt t)]"
  using chat_with_model_hist[of L client hist model "ct_prompt t"]
  by (auto simp: coding_step_def Let_def split: prod.splits sum.splits if_splits)

lemma for_each_hist:
  assumes step: "\<And>t a hist a' hist'. body t (a, hist) = Inr (a', hist') \<Longrightarrow>
                   hist' = hist @ [(model, prompt_of t)]"
  shows "for_each body ts (a, hist) = Inr (a', hist') \<Longrightarrow>
           hist' = hist @ map (\<lambda>t. (model, prompt_of t)) ts"
proof (induction ts arbitrary: a hist)
  case Nil
  then show ?case by simp
next
  case (Cons t ts)
  from Cons.prems obtain a1 h1 where
    s: "body t (a, hist) = Inr (a1, h1)" and r: "for_each body ts (a1, h1) = Inr (a', hist')"
    by (auto split: sum.splits)
  from step[OF s] Cons.IH[OF r] show ?case by simp
qed

lemma run_smartness_tests_hist:
  "run_smartness_tests L client hist model = Inr (res, hist') \<Longrightarrow>
     hist' = hist @ map (\<lambda>t. (model, st_prompt t)) SMARTNESS_TESTS"
  unfolding run_smartness_tests_def
  by (auto split: sum.splits dest!: for_each_hist[rotated, where prompt_of = st_prompt and model = model, OF _ smart_step_hist])

lemma run_coding_tests_hist:
  "run_coding_tests L client python hist model = Inr (res, hist') \<Longrightarrow>
     hist' = hist @ map (\<lambda>t. (model, ct_prompt t)) CODING_TESTS"
  unfolding run_coding_tests_def
  by (auto split: sum.splits dest!: for_each_hist[rotated, where prompt_of = ct_prompt and model = model, OF _ coding_step_hist])

text \<open>
  C9. For every client, model and two values \<open>r1\<close>, \<open>r2\<close> of \<^verbatim>\<open>repeat\<close>, started from the same
  calls made so far, the client, the interpreter and the library answering alike,
  \<^verbatim>\<open>test_model\<close> has the same outcome (the same report and the same calls to the client, or
  the same exception); and when it returns, the calls it made are the prompts of the
  smartness table followed by those of the coding table, each once.
\<close>

theorem test_model_ignores_repeat:
  "test_model L client python hist model r1 = test_model L client python hist model r2 \<and>
   (\<forall>report hist'. test_model L client python hist model r1 = Inr (report, hist') \<longrightarrow>
      hist' = hist @ map (Pair model) (map st_prompt SMARTNESS_TESTS @ map ct_prompt CODING_TESTS))"
proof
  show "test_model L client python hist model r1 = test_model L client python hist model r2"
    by (simp add: test_model_def)
next
  show "\<forall>report hist'. test_model L client python hist model r1 = Inr (report, hist') \<longrightarrow>
      hist' = hist @ map (Pair model) (map st_prompt SMARTNESS_TESTS @ map ct_prompt CODING_TESTS)"
  proof (intro allI impI)
    fix report hist'
    assume a: "test_model L client python hist model r1 = Inr (report, hist')"
    then obtain sres h1 cres where
      s: "run_smartness_tests L client hist model = Inr (sres, h1)" and
      c: "run_coding_tests L client python h1 model = Inr (cres, hist')"
      by (auto simp: test_model_def Let_def split: sum.splits)
    from run_smartness_tests_hist[OF s] run_coding_tests_hist[OF c]
    show "hist' = hist @ map (Pair model) (map st_prompt SMARTNESS_TESTS @ map ct_prompt CODING_TESTS)"
      by (simp add: comp_def)
  qed
qed

theorem test_model_ignores_repeat_witness:
  "test_model example_lib example_client python_harness_output [] ''etch-7b'' 1 =
     test_model example_lib example_client python_harness_output [] ''etch-7b'' 3 \<and>
   \<not> isl (test_model example_lib example_client python_harness_output [] ''etch-7b'' 1) \<and>
   snd (projr (test_model example_lib example_client python_harness_output [] ''etch-7b'' 1)) =
     map (Pair ''etch-7b'') (map st_prompt SMARTNESS_TESTS @ map ct_prompt CODING_TESTS)"
proof -
  have n: "\<not> isl (test_model example_lib example_client python_harness_output [] ''etch-7b'' 1)"
    by code_simp
  then obtain report hist' where
    r: "test_model example_lib example_client python_harness_output [] ''etch-7b'' 1 =
          Inr (report, hist')"
    by (cases "test_model example_lib example_client python_harness_output [] ''etch-7b'' 1") auto
  note t = test_model_ignores_repeat
             [of example_lib example_client python_harness_output "[]" "''etch-7b''" 1 3]
  from t have e: "test_model example_lib example_client python_harness_output [] ''etch-7b'' 1 =
     test_model example_lib example_client python_harness_output [] ''etch-7b'' 3" by (rule conjunct1)
  from t r have "hist' = [] @ map (Pair ''etch-7b'')
                   (map st_prompt SMARTNESS_TESTS @ map ct_prompt CODING_TESTS)"
    by blast
  then have s: "snd (projr (test_model example_lib example_client python_harness_output []
                      ''etch-7b'' 1)) =
     map (Pair ''etch-7b'') (map st_prompt SMARTNESS_TESTS @ map ct_prompt CODING_TESTS)"
    by (simp only: r sum.sel snd_conv append_Nil)
  from e n s show ?thesis by (intro conjI)
qed

section \<open>Properties of the run orchestrator\<close>

subsection \<open>Status\<close>

text \<open>
  The statuses a poller can see are those of \<^const>\<open>statuses\<close> along the mutations of
  \<^verbatim>\<open>bg\<close>; the mutations of \<^verbatim>\<open>_run_tests_sync\<close> are quiet as long as listing the models does
  not raise.
\<close>

lemma apply_op_status:
  "RUNS rid = Some r \<Longrightarrow>
     \<exists>r'. apply_op rid op RUNS rid = Some r' \<and> status r' = op_status op (status r)"
  by (cases op)
     (simp_all add: apply_op_def set_running_def append_message_def set_progress_def
        set_result_def set_error_def)

text \<open>A mutation of another run leaves this run's entry as it is.\<close>

lemma apply_op_other_run:
  "rid' \<noteq> rid \<Longrightarrow> apply_op rid' op RUNS rid = RUNS rid"
  by (cases op)
     (simp_all add: apply_op_def set_running_def append_message_def set_progress_def
        set_result_def set_error_def split: option.splits)

lemma status_history_run_ops:
  "RUNS rid = Some r \<Longrightarrow> status_history rid (run_ops rid ops RUNS) = statuses (status r) ops"
proof (induction ops arbitrary: RUNS r)
  case Nil
  then show ?case by (simp add: status_history_def)
next
  case (Cons op ops)
  from apply_op_status[of RUNS rid r op] Cons.prems obtain r' where
    r': "apply_op rid op RUNS rid = Some r'" "status r' = op_status op (status r)" by blast
  from Cons.IH[of "apply_op rid op RUNS" r'] r' Cons.prems show ?case
    by (simp add: status_history_def)
qed

lemma statuses_quiet:
  "list_all quiet ops \<Longrightarrow> statuses s (ops @ rest) = replicate (length ops) s @ statuses s rest"
proof (induction ops)
  case Nil
  then show ?case by simp
next
  case (Cons op ops)
  then show ?case by (cases op) simp_all
qed

lemma remdups_adj_replicate_append:
  "remdups_adj (s # replicate n s @ xs) = remdups_adj (s # xs)"
  by (induction n) simp_all

lemma statuses_Cons: "\<exists>ss. statuses s ops = s # ss"
  by (cases ops) simp_all

lemma status_trace_quiet:
  "list_all quiet ops \<Longrightarrow>
     remdups_adj (s # statuses s (ops @ rest)) = remdups_adj (statuses s rest)"
proof -
  assume q: "list_all quiet ops"
  obtain ss where ss: "statuses s rest = s # ss" using statuses_Cons by blast
  have "remdups_adj (s # statuses s (ops @ rest)) =
        remdups_adj (s # replicate (length ops) s @ s # ss)"
    using statuses_quiet[OF q] ss by simp
  also have "\<dots> = remdups_adj (s # s # ss)"
    by (rule remdups_adj_replicate_append)
  finally show ?thesis using ss by simp
qed

lemma sync_loop_quiet:
  "list_all quiet ops \<Longrightarrow> sync_loop W emit repeat tot items ops tested hist = (ops', res)
     \<Longrightarrow> list_all quiet ops'"
proof (induction items arbitrary: ops tested hist)
  case Nil
  then show ?case by simp
next
  case (Cons it items)
  obtain idx mn where it: "it = (idx, mn)" by (cases it)
  let ?ops1 = "ops @ (if emit then [AppendMessage (testing_message mn idx tot),
                                       SetProgress (progress_before idx tot)] else [])"
  have q1: "list_all quiet ?ops1" using Cons.prems(1) by simp
  show ?case
  proof (cases "test_model (w_lib W) (w_client W) (w_python W) hist mn repeat")
    case (Inl e)
    with Cons.prems(2) it have "ops' = ?ops1" by (simp add: Let_def)
    with q1 show ?thesis by simp
  next
    case (Inr p)
    obtain res' hist' where p: "p = (res', hist')" by (cases p)
    let ?ops2 = "?ops1 @ (if emit then [AppendMessage (completed_message (w_lib W) mn res'),
                                      SetProgress (progress_after idx tot)] else [])"
    have q2: "list_all quiet ?ops2" using q1 by simp
    from Cons.prems(2) it Inr p have
      "sync_loop W emit repeat tot items ?ops2 (tested @ [res']) hist' = (ops', res)"
      by (simp add: Let_def)
    from Cons.IH[OF q2 this] show ?thesis .
  qed
qed

lemma run_tests_sync_listing_fails:
  "w_list W = Inl e \<Longrightarrow> rid \<noteq> [] \<Longrightarrow>
     \<exists>s. run_tests_sync W host repeat models (Some rid) =
           ([SetError (str_exn (w_lib W) e)], Inr s)"
  by (simp add: run_tests_sync_def)

lemma run_tests_sync_listing_succeeds:
  "w_list W = Inr names \<Longrightarrow> run_tests_sync W host repeat models rid = (ops, res)
     \<Longrightarrow> list_all quiet ops"
proof -
  assume a: "w_list W = Inr names" and b: "run_tests_sync W host repeat models rid = (ops, res)"
  define emit where "emit = (case rid of None \<Rightarrow> False | Some r \<Rightarrow> r \<noteq> [])"
  define tms where "tms = (if models \<noteq> [] then filter (\<lambda>mn. mn \<in> set names) models
                  else filter (\<lambda>mn. sublist ''etch'' (lower mn)) names)"
  show ?thesis
  proof (cases "tms = []")
    case True
    with a b show ?thesis by (simp add: run_tests_sync_def tms_def Let_def)
  next
    case False
    obtain ops1 r1 where l: "sync_loop W emit repeat (int (length tms))
                        (zip (map int [1 ..< Suc (length tms)]) tms) [] [] [] = (ops1, r1)"
      by (cases "sync_loop W emit repeat (int (length tms))
                        (zip (map int [1 ..< Suc (length tms)]) tms) [] [] []")
    from sync_loop_quiet[OF _ l] have q: "list_all quiet ops1" by simp
    from a b False l have "ops = ops1 \<or> ops = ops1 @ (if emit then [SetProgress 95] else [])"
      by (cases r1) (auto simp: run_tests_sync_def tms_def[symmetric] emit_def[symmetric] Let_def)
    with q show ?thesis by auto
  qed
qed

lemma start_run_trace:
  "host \<noteq> [] \<Longrightarrow>
     \<exists>Rs. start_run W uuid host repeat models RUNS = Some (uuid, Rs) \<and>
          status_trace uuid Rs = remdups_adj (statuses Pending (bg W host repeat models uuid))"
  by (simp add: start_run_def create_run_def status_trace_def status_history_run_ops)

lemma bg_trace_listing_fails:
  assumes "w_list W = Inl e" and "rid \<noteq> []"
  shows "remdups_adj (statuses Pending (bg W host repeat models rid)) =
           [Pending, Running, Error, Done]"
proof -
  from run_tests_sync_listing_fails[OF assms] obtain s where
    "run_tests_sync W host repeat models (Some rid) = ([SetError (str_exn (w_lib W) e)], Inr s)"
    by blast
  then show ?thesis
    by (simp add: bg_def Let_def split: option.splits sum.splits)
qed

lemma bg_trace_listing_succeeds:
  assumes "w_list W = Inr names"
  shows "remdups_adj (statuses Pending (bg W host repeat models rid)) = [Pending, Running, Done] \<or>
         remdups_adj (statuses Pending (bg W host repeat models rid)) = [Pending, Running, Error]"
proof -
  obtain ops res where r: "run_tests_sync W host repeat models (Some rid) = (ops, res)"
    by (cases "run_tests_sync W host repeat models (Some rid)")
  from run_tests_sync_listing_succeeds[OF assms r] have q: "list_all quiet ops" .
  show ?thesis
  proof (cases res)
    case (Inl e)
    with r have "bg W host repeat models rid =
        [SetRunning, AppendMessage ''Starting run...''] @ ops @ [SetError (str_exn (w_lib W) e)]"
      by (simp add: bg_def)
    then have "remdups_adj (statuses Pending (bg W host repeat models rid)) =
        Pending # remdups_adj (Running # statuses Running (ops @ [SetError (str_exn (w_lib W) e)]))"
      by simp
    also have "\<dots> = Pending # remdups_adj (statuses Running [SetError (str_exn (w_lib W) e)])"
      using status_trace_quiet[OF q] by simp
    finally show ?thesis by simp
  next
    case (Inr s)
    from r Inr obtain tail where
      b: "bg W host repeat models rid =
            [SetRunning, AppendMessage ''Starting run...''] @ ops @ tail" and
      t: "remdups_adj (statuses Running tail) = [Running, Done]"
      by (auto simp: bg_def Let_def split: option.splits sum.splits)
    from b have "remdups_adj (statuses Pending (bg W host repeat models rid)) =
        Pending # remdups_adj (Running # statuses Running (ops @ tail))"
      by simp
    also have "\<dots> = Pending # remdups_adj (statuses Running tail)"
      using status_trace_quiet[OF q] by simp
    finally show ?thesis using t by simp
  qed
qed

text \<open>
  C1 fails on the code. The claim: the status of a run goes only along pending, running,
  then done or error, and exactly one of done and error is ever reached, also when
  listing the models raises. When \<^verbatim>\<open>client.list()\<close> raises (here: connection refused),
  \<^verbatim>\<open>_run_tests_sync\<close> calls \<^verbatim>\<open>set_error\<close> and returns a summary, and \<^verbatim>\<open>bg\<close> goes on to
  \<^verbatim>\<open>set_result\<close>: the run is seen pending, running, error and then done. By
  \<open>bg_trace_listing_fails\<close> this is so for every run on that path; by
  \<open>bg_trace_listing_succeeds\<close> the claim holds on every other path.
\<close>

theorem start_run_unreachable_host_trace:
  "map_option (\<lambda>(rid, Rs). status_trace rid Rs)
     (start_run unreachable_world ''4f1c'' ''http://localhost:11434'' 1 [] Map.empty) =
   Some [Pending, Running, Error, Done]"
proof -
  have h: "''http://localhost:11434'' \<noteq> []" by simp
  have l: "w_list unreachable_world = Inl (Raised ''connection refused'')"
    by (simp add: unreachable_world_def)
  from start_run_trace[OF h, of unreachable_world "''4f1c''" 1 "[]" Map.empty]
    bg_trace_listing_fails[OF l, of "''4f1c''" "''http://localhost:11434''" 1 "[]"]
  show ?thesis by auto
qed

subsection \<open>Progress\<close>

text \<open>One iteration of the loop writes the two progress values of its model.\<close>

lemma sync_loop_step_ops:
  "test_model (w_lib W) (w_client W) (w_python W) hist mn repeat = Inr (res, hist') \<Longrightarrow>
   sync_loop W True repeat tot [(idx, mn)] ops tested hist =
     (ops @ [AppendMessage (testing_message mn idx tot), SetProgress (progress_before idx tot),
             AppendMessage (completed_message (w_lib W) mn res),
             SetProgress (progress_after idx tot)],
      Inr (tested @ [res]))"
  by (simp add: Let_def)

text \<open>
  C3 fails on the code. The claim: for every number \<open>M \<ge> 1\<close> of selected models and every
  \<open>i\<close>, the progress written before model \<open>i\<close>, after model \<open>i\<close> and before model \<open>i + 1\<close>
  is non-decreasing. With 23 models, the progress written before model 22 is
  \<^verbatim>\<open>int((21 / 23) * 100)\<close>, which is 91, and the progress written after it is
  \<^verbatim>\<open>int((22 / 23) * 95)\<close>, which is 90.
\<close>

theorem progress_regresses_at_model_22_of_23:
  "progress_before 22 23 = 91 \<and> progress_after 22 23 = 90"
  by code_simp

subsection \<open>Top performers\<close>

text \<open>
  \<^verbatim>\<open>max\<close> returns the first item, in iteration order, whose key is the greatest: every
  item before it has a smaller key, no item after it has a greater one.
\<close>

lemma py_max_by_split_gen:
  fixes key :: "'a \<Rightarrow> 'k::linorder"
  assumes "\<forall>x\<in>set pre0. key x < key best" and "\<forall>x\<in>set mid. key x \<le> key best"
  shows "\<exists>pre post. pre0 @ best # mid @ xs = pre @ py_max_by key (<) best xs # post \<and>
           (\<forall>x\<in>set pre. key x < key (py_max_by key (<) best xs)) \<and>
           (\<forall>x\<in>set post. key x \<le> key (py_max_by key (<) best xs))"
  using assms
proof (induction xs arbitrary: pre0 best mid)
  case Nil
  then show ?case by auto
next
  case (Cons x xs)
  show ?case
  proof (cases "key best < key x")
    case True
    have a: "\<forall>y\<in>set (pre0 @ best # mid). key y < key x"
      using Cons.prems True by auto
    have b: "\<forall>y\<in>set []. key y \<le> key x" by simp
    from Cons.IH[OF a b] True show ?thesis by simp
  next
    case False
    have b: "\<forall>y\<in>set (mid @ [x]). key y \<le> key best"
      using Cons.prems False by auto
    from Cons.IH[OF Cons.prems(1) b] False show ?thesis by simp
  qed
qed

lemma py_max_by_first_maximum:
  fixes key :: "'a \<Rightarrow> 'k::linorder"
  shows "\<exists>pre post. m # xs = pre @ py_max_by key (<) m xs # post \<and>
           (\<forall>x\<in>set pre. key x < key (py_max_by key (<) m xs)) \<and>
           (\<forall>x\<in>set post. key x \<le> key (py_max_by key (<) m xs))"
  using py_max_by_split_gen[of "[]" key m "[]" xs] by simp


end
